theory Spec2Isabelle
  imports Complex_Main
begin

section \<open>The NES attack of realsafe/attack/nes.py\<close>

text \<open>
  The class \<^verbatim>\<open>NES\<close> builds a TensorFlow graph in \<^verbatim>\<open>__init__\<close> and drives it from
  \<^verbatim>\<open>attack\<close>. The embedding follows that split: the graph operations are functions of
  the session's variables, \<^verbatim>\<open>attack\<close> is a loop over an explicit loop state.

  Numbers. The tensors hold floating-point numbers; here they are real numbers, so
  rounding and overflow are not part of the model. A float operation whose result is
  not a finite number (a division by zero, a reduction over an empty axis) has no real
  value: the run of the graph in which it occurs ends in the value \<open>Inl NonFinite\<close>,
  and so does the call of \<^verbatim>\<open>attack\<close> around it (the program itself goes on with
  \<open>nan\<close> or \<open>inf\<close> in its tensors, which the embedding does not follow).
  A tensor is the list of its elements; its shape beyond the number of elements plays
  no role in the operations used. Labels are integers.
\<close>

datatype error = NotImplementedError | ValueError | NonFinite

type_synonym tensor = "real list"

subsection \<open>The classifier\<close>

text \<open>
  Modelled from the spec: the classifier \<^verbatim>\<open>self.model\<close>, whose class is not part of
  this file. It is a parameter of the embedding, with the interface the spec gives the
  scoring collaborator (the number of elements of \<^verbatim>\<open>x_shape\<close>, the number of classes,
  the valid value range, and per-sample class scores and predicted labels for a batch
  of inputs): \<open>score m x j\<close> is the logit of class \<open>j\<close> at the input \<open>x\<close>, \<open>label m x\<close> the
  label predicted at \<open>x\<close>, and \<^verbatim>\<open>logits_and_labels\<close> scores a batch row by row.
\<close>

record model =
  x_dim :: nat
  n_class :: nat
  x_min :: real
  x_max :: real
  score :: "tensor \<Rightarrow> nat \<Rightarrow> real"
  label :: "tensor \<Rightarrow> int"

definition logits :: "model \<Rightarrow> tensor \<Rightarrow> real list" where
  "logits m x = map (score m x) [0..<n_class m]"

definition logits_and_labels :: "model \<Rightarrow> tensor list \<Rightarrow> real list list \<times> int list" where
  "logits_and_labels m xs = (map (logits m) xs, map (label m) xs)"

subsection \<open>Tensor operations\<close>

text \<open>
  The TensorFlow and NumPy operations the source calls, by the meaning their library
  gives them, elementwise on tensors of one shape.
  \<^verbatim>\<open>tf.clip_by_value(t, lo, hi)\<close> computes \<^verbatim>\<open>maximum(minimum(t, hi), lo)\<close>;
  \<^verbatim>\<open>tf.clip_by_norm(t, c)\<close> computes \<^verbatim>\<open>t * c / maximum(norm(t), c)\<close>, which is 0/0
  when the denominator is zero; \<^verbatim>\<open>tf.norm\<close> is the L2 norm over all elements;
  \<^verbatim>\<open>tf.one_hot\<close> gives the zero row for a label that is not a class.
\<close>

definition tf_add :: "tensor \<Rightarrow> tensor \<Rightarrow> tensor" where
  "tf_add xs ys = map2 (+) xs ys"

definition tf_sub :: "tensor \<Rightarrow> tensor \<Rightarrow> tensor" where
  "tf_sub xs ys = map2 (-) xs ys"

definition tf_scale :: "real \<Rightarrow> tensor \<Rightarrow> tensor" where
  "tf_scale c xs = map (\<lambda>v. c * v) xs"

definition tf_neg :: "tensor \<Rightarrow> tensor" where
  "tf_neg xs = map uminus xs"

definition tf_div :: "tensor \<Rightarrow> real \<Rightarrow> tensor" where
  "tf_div xs c = map (\<lambda>v. v / c) xs"

text \<open>A division of floats by zero gives \<open>nan\<close> or \<open>inf\<close> and raises nothing. The division
  of the L2 step by the gradient norm (line 62) is written with its check, so that a zero
  divisor there is the error \<open>NonFinite\<close>; the divisions by \<^verbatim>\<open>sigma_var\<close> and by the number of
  samples are checked where the operations are run.\<close>

definition tf_div_checked :: "tensor \<Rightarrow> real \<Rightarrow> error + tensor" where
  "tf_div_checked xs c = (if c = 0 then Inl NonFinite else Inr (tf_div xs c))"

definition tf_sign :: "tensor \<Rightarrow> tensor" where
  "tf_sign xs = map sgn xs"

definition tf_norm :: "tensor \<Rightarrow> real" where
  "tf_norm xs = sqrt (sum_list (map (\<lambda>v. v * v) xs))"

definition clip_by_value :: "tensor \<Rightarrow> real \<Rightarrow> real \<Rightarrow> tensor" where
  "clip_by_value xs lo hi = map (\<lambda>v. max (min v hi) lo) xs"

definition clip_by_norm :: "tensor \<Rightarrow> real \<Rightarrow> error + tensor" where
  "clip_by_norm xs c =
     (let d = max (tf_norm xs) c
      in if d = 0 then Inl NonFinite else Inr (map (\<lambda>v. v * c / d) xs))"

definition one_hot :: "int \<Rightarrow> nat \<Rightarrow> real list" where
  "one_hot l n = map (\<lambda>j. if int j = l then 1 else 0) [0..<n]"

text \<open>\<^verbatim>\<open>tf.reduce_max\<close> along the class axis; the empty row (no class) is excluded
  where the loss is run.\<close>

fun reduce_max :: "real list \<Rightarrow> real" where
  "reduce_max [] = 0"
| "reduce_max (v # vs) = fold max vs v"

text \<open>Sum and mean of a batch of tensors of \<open>n\<close> elements along the batch axis.\<close>

definition reduce_sum0 :: "nat \<Rightarrow> tensor list \<Rightarrow> tensor" where
  "reduce_sum0 n ts = foldr tf_add ts (replicate n 0)"

definition reduce_mean0 :: "nat \<Rightarrow> tensor list \<Rightarrow> tensor" where
  "reduce_mean0 n ts = tf_div (reduce_sum0 n ts) (real (length ts))"

definition np_mean :: "real list \<Rightarrow> real" where
  "np_mean vs = sum_list vs / real (length vs)"

text \<open>The Python slice \<^verbatim>\<open>xs[-p:]\<close>: the last \<open>p\<close> elements for a positive \<open>p\<close>, the
  whole list for \<open>p = 0\<close>, the list without its first \<open>-p\<close> elements for a negative \<open>p\<close>.\<close>

definition py_slice_from_neg :: "'a list \<Rightarrow> int \<Rightarrow> 'a list" where
  "py_slice_from_neg xs p =
     (if 0 < p then drop (length xs - nat p) xs else drop (nat (- p)) xs)"

subsection \<open>The session's variables and the attack object\<close>

record vars =
  x_var :: tensor
  x_adv_var :: tensor
  ys_var :: "int list"
  eps_var :: real
  sigma_var :: real
  lr_var :: real

text \<open>What \<^verbatim>\<open>__init__\<close> stores: its arguments, the even \<^verbatim>\<open>samples_per_draw\<close>, and the
  update operation it has built for the distance metric.\<close>

record nes =
  model :: model
  goal :: string
  distance_metric :: string
  samples_per_draw :: nat
  update_x_adv_step :: "vars \<Rightarrow> tensor \<Rightarrow> error + tensor"

text \<open>What \<^verbatim>\<open>config\<close> stores on the object. \<^verbatim>\<open>attack\<close> is modelled for an object on
  which every one of these options has been set.\<close>

record config =
  max_queries :: int
  lr :: real
  min_lr :: real
  lr_tuning :: bool
  plateau_length :: int

subsection \<open>The graph built by \<^verbatim>\<open>__init__\<close>\<close>

text \<open>The random source is a parameter: \<open>rng t s c\<close> is element \<open>c\<close> of sample \<open>s\<close> of
  the \<open>t\<close>-th evaluation of \<^verbatim>\<open>tf.random.normal\<close>.\<close>

type_synonym rng = "nat \<Rightarrow> nat \<Rightarrow> nat \<Rightarrow> real"

definition random_normal :: "rng \<Rightarrow> nat \<Rightarrow> nat \<Rightarrow> nat \<Rightarrow> tensor list" where
  "random_normal r t k n = map (\<lambda>s. map (\<lambda>c. r t s c) [0..<n]) [0..<k]"

definition perts :: "nat \<Rightarrow> nat \<Rightarrow> rng \<Rightarrow> nat \<Rightarrow> tensor list" where
  "perts spd n r t =
     (let p = random_normal r t (spd div 2) n in p @ map tf_neg p)"

definition points :: "vars \<Rightarrow> tensor list \<Rightarrow> tensor list" where
  "points st ps = map (\<lambda>p. tf_add (x_adv_var st) (tf_scale (sigma_var st) p)) ps"

definition logit_this :: "real list \<Rightarrow> real list \<Rightarrow> real" where
  "logit_this logits_mask lg = sum_list (map2 (*) logits_mask lg)"

definition logit_that :: "real list \<Rightarrow> real list \<Rightarrow> real" where
  "logit_that logits_mask lg = reduce_max (map2 (\<lambda>l m. l - 99999 * m) lg logits_mask)"

definition loss :: "model \<Rightarrow> vars \<Rightarrow> tensor list \<Rightarrow> real list" where
  "loss m st ps =
     map2 (\<lambda>y lg. logit_that (one_hot y (n_class m)) lg - logit_this (one_hot y (n_class m)) lg)
       (ys_var st) (fst (logits_and_labels m (points st ps)))"

definition grad :: "model \<Rightarrow> string \<Rightarrow> vars \<Rightarrow> tensor list \<Rightarrow> tensor" where
  "grad m g st ps =
     (let grads = map2 tf_scale (loss m st ps) ps;
          gr = tf_div (reduce_mean0 (x_dim m) grads) (sigma_var st)
      in if g \<noteq> ''ut'' then tf_neg gr else gr)"

text \<open>Lines 60 to 66: the stepped offset from the origin (\<^verbatim>\<open>x_adv_delta\<close>) and its
  projection, for either metric; line 69 clips the candidate into the valid range.\<close>

definition grad_norm :: "tensor \<Rightarrow> real" where
  "grad_norm gr = max (1 / 10 ^ 12) (tf_norm gr)"

definition x_adv_delta_l2 :: "vars \<Rightarrow> tensor \<Rightarrow> error + tensor" where
  "x_adv_delta_l2 st gr =
     (case tf_div_checked (tf_scale (lr_var st) gr) (grad_norm gr) of
        Inl e \<Rightarrow> Inl e
      | Inr step \<Rightarrow> Inr (tf_add (tf_sub (x_adv_var st) (x_var st)) step))"

definition l2_step :: "model \<Rightarrow> vars \<Rightarrow> tensor \<Rightarrow> error + tensor" where
  "l2_step m st gr =
     (case x_adv_delta_l2 st gr of
        Inl e \<Rightarrow> Inl e
      | Inr x_adv_delta \<Rightarrow>
          (case clip_by_norm x_adv_delta (eps_var st) of
             Inl e \<Rightarrow> Inl e
           | Inr d \<Rightarrow> Inr (clip_by_value (tf_add (x_var st) d) (x_min m) (x_max m))))"

definition x_adv_delta_linf :: "vars \<Rightarrow> tensor \<Rightarrow> tensor" where
  "x_adv_delta_linf st gr =
     tf_add (tf_sub (x_adv_var st) (x_var st)) (tf_scale (lr_var st) (tf_sign gr))"

definition linf_step :: "model \<Rightarrow> vars \<Rightarrow> tensor \<Rightarrow> error + tensor" where
  "linf_step m st gr =
     Inr (clip_by_value
            (tf_add (x_var st)
               (clip_by_value (x_adv_delta_linf st gr) (- eps_var st) (eps_var st)))
            (x_min m) (x_max m))"

definition build_update :: "model \<Rightarrow> string \<Rightarrow> error + (vars \<Rightarrow> tensor \<Rightarrow> error + tensor)" where
  "build_update m dm =
     (if dm = ''l_2'' then Inr (l2_step m)
      else if dm = ''l_inf'' then Inr (linf_step m)
      else Inl NotImplementedError)"

definition NES_init :: "model \<Rightarrow> string \<Rightarrow> string \<Rightarrow> nat \<Rightarrow> error + nes" where
  "NES_init m g dm spd =
     (case build_update m dm of
        Inl e \<Rightarrow> Inl e
      | Inr upd \<Rightarrow>
          Inr \<lparr>model = m, goal = g, distance_metric = dm,
               samples_per_draw = (spd div 2) * 2, update_x_adv_step = upd\<rparr>)"

subsection \<open>Running the graph\<close>

text \<open>
  \<^verbatim>\<open>session.run((self.loss, self.update_x_adv_step))\<close>: one draw of the perturbations,
  the loss at the perturbed points and the assignment of the next candidate to
  \<^verbatim>\<open>x_adv_var\<close>, both computed from the variables as they are when the run starts. The
  mean over an empty batch, the maximum over an empty class axis and the division by
  \<^verbatim>\<open>sigma_var = 0\<close> are not finite. (For inputs with no element at all the guard is
  cautious: it ends runs in which no element could be other than finite.)
\<close>

definition run_loss_update :: "nes \<Rightarrow> vars \<Rightarrow> tensor list \<Rightarrow> error + (real list \<times> vars)" where
  "run_loss_update a st ps =
     (if samples_per_draw a = 0 \<or> n_class (model a) = 0 \<or> sigma_var st = 0
      then Inl NonFinite
      else case update_x_adv_step a st (grad (model a) (goal a) st ps) of
             Inl e \<Rightarrow> Inl e
           | Inr x_adv_next \<Rightarrow> Inr (loss (model a) st ps, st\<lparr>x_adv_var := x_adv_next\<rparr>))"

definition label_pred :: "nes \<Rightarrow> vars \<Rightarrow> int" where
  "label_pred a st = snd (logits_and_labels (model a) [x_adv_var st]) ! 0"

definition is_adversarial :: "nes \<Rightarrow> vars \<Rightarrow> int \<Rightarrow> int \<Rightarrow> bool" where
  "is_adversarial a st y y_target =
     (let lab = label_pred a st
      in if goal a = ''ut'' \<or> goal a = ''tm'' then lab \<noteq> y else lab = y_target)"

subsection \<open>The attack loop\<close>

text \<open>
  The local variables of \<^verbatim>\<open>attack\<close> and the session it updates. \<open>iters\<close> counts the
  executions of the loop body (it also numbers the random draws) and \<open>checks\<close> the calls
  of \<^verbatim>\<open>_is_adversarial\<close>; neither is read by the computation. Logging changes no
  variable and is left out.
\<close>

record loop_state =
  session :: vars
  last_loss :: "real list"
  queries :: int
  lr_local :: real
  iters :: nat
  checks :: nat

text \<open>Lines 121 to 132: the learning-rate schedule, given the mean loss of the iteration.\<close>

definition halve_lr :: "config \<Rightarrow> loop_state \<Rightarrow> loop_state" where
  "halve_lr c s =
     (let lr' = max (lr_local s / 2) (min_lr c)
      in s\<lparr>lr_local := lr', session := (session s)\<lparr>lr_var := lr'\<rparr>, last_loss := []\<rparr>)"

definition tune_lr :: "config \<Rightarrow> nes \<Rightarrow> real \<Rightarrow> loop_state \<Rightarrow> loop_state" where
  "tune_lr c a mean_loss s =
     (if lr_tuning c then
        (let ll = py_slice_from_neg (last_loss s @ [mean_loss]) (plateau_length c);
             s1 = s\<lparr>last_loss := ll\<rparr>
         in if int (length ll) = plateau_length c then
              (if goal a = ''ut'' \<and> last ll < hd ll then halve_lr c s1
               else if goal a \<noteq> ''ut'' \<and> last ll > hd ll then halve_lr c s1
               else s1)
            else s1)
      else s)"

text \<open>Lines 118 to 132: one execution of the loop body up to the success check. It
  returns only with \<^verbatim>\<open>samples_per_draw > 0\<close>, so the loop below comes to an end.\<close>

definition loop_body :: "config \<Rightarrow> nes \<Rightarrow> rng \<Rightarrow> loop_state \<Rightarrow> error + loop_state" where
  "loop_body c a r s =
     (case run_loss_update a (session s)
             (perts (samples_per_draw a) (x_dim (model a)) r (iters s)) of
        Inl e \<Rightarrow> Inl e
      | Inr (l, st') \<Rightarrow>
          Inr (tune_lr c a (np_mean l)
                 (s\<lparr>session := st', queries := queries s + int (samples_per_draw a),
                    iters := Suc (iters s)\<rparr>)))"

function attack_loop ::
  "config \<Rightarrow> nes \<Rightarrow> rng \<Rightarrow> int \<Rightarrow> int \<Rightarrow> loop_state \<Rightarrow> error + loop_state" where
  "attack_loop c a r y y_target s =
     (if queries s < max_queries c then
        (case loop_body c a r s of
           Inl e \<Rightarrow> Inl e
         | Inr s' \<Rightarrow>
             (let s'' = s'\<lparr>checks := Suc (checks s')\<rparr>
              in if is_adversarial a (session s'') y y_target then Inr s''
                 else attack_loop c a r y y_target s''))
      else Inr s)"
  by pat_completeness auto
termination
  by (relation "measure (\<lambda>(c, a, r, y, y_target, s). nat (max_queries c - queries s))")
     (auto simp: loop_body_def run_loss_update_def tune_lr_def halve_lr_def Let_def
           split: sum.splits if_splits prod.splits)

declare attack_loop.simps [simp del]

text \<open>What \<^verbatim>\<open>attack\<close> hands back: the returned tensor, \<^verbatim>\<open>details['queries']\<close> and the
  loop state at the return.\<close>

record outcome =
  returned :: tensor
  details_queries :: int
  final :: loop_state

text \<open>Lines 101 to 109: the feeds of the input, of the labels and of the learning rate.\<close>

definition run_setup :: "config \<Rightarrow> nes \<Rightarrow> vars \<Rightarrow> tensor \<Rightarrow> int \<Rightarrow> int \<Rightarrow> vars" where
  "run_setup c a st0 x y y_target =
     st0\<lparr>x_var := x, x_adv_var := x,
         ys_var := replicate (samples_per_draw a) (if goal a = ''ut'' then y else y_target),
         lr_var := lr c\<rparr>"

definition entry :: "config \<Rightarrow> nes \<Rightarrow> vars \<Rightarrow> tensor \<Rightarrow> int \<Rightarrow> int \<Rightarrow> loop_state" where
  "entry c a st0 x y y_target =
     \<lparr>session = run_setup c a st0 x y y_target, last_loss = [], queries = 0, lr_local = lr c,
      iters = 0, checks = Suc 0\<rparr>"

text \<open>Feeding a tensor whose shape is not \<^verbatim>\<open>x_shape\<close> is refused by the session.\<close>

definition attack ::
  "config \<Rightarrow> nes \<Rightarrow> rng \<Rightarrow> vars \<Rightarrow> tensor \<Rightarrow> int \<Rightarrow> int \<Rightarrow> error + outcome" where
  "attack c a r st0 x y y_target =
     (if length x \<noteq> x_dim (model a) then Inl ValueError
      else
        (let s = entry c a st0 x y y_target
         in if is_adversarial a (session s) y y_target
            then Inr \<lparr>returned = x, details_queries = queries s, final = s\<rparr>
            else (case attack_loop c a r y y_target s of
                    Inl e \<Rightarrow> Inl e
                  | Inr s' \<Rightarrow>
                      Inr \<lparr>returned = x_adv_var (session s'),
                           details_queries = queries s', final = s'\<rparr>)))"

text \<open>The condition of lines 124 to 129 under which the learning rate is halved, on the
  window of mean losses after the slice.\<close>

definition plateau_detected :: "config \<Rightarrow> nes \<Rightarrow> real list \<Rightarrow> bool" where
  "plateau_detected c a ll =
     (int (length ll) = plateau_length c \<and>
      (goal a = ''ut'' \<and> last ll < hd ll \<or> goal a \<noteq> ''ut'' \<and> last ll > hd ll))"



subsection \<open>A concrete instance\<close>

text \<open>
  A classifier on one-element inputs with two classes, used to run the definitions on
  concrete inputs: class 0 scores 0, class 1 scores \<open>min v (4 - 3 v)\<close> at the input \<open>[v]\<close>,
  and label 1 is predicted above 50. Every random draw is the tensor \<open>[1]\<close>.
  \<open>toy_session v e l\<close> is a session with origin \<open>[0]\<close>, candidate \<open>[v]\<close>, magnitude \<open>e\<close>,
  \<open>sigma = 1\<close> and learning rate \<open>l\<close>; \<open>toy_state v l ll n\<close> is the loop state after \<open>n\<close>
  iterations with candidate \<open>[v]\<close>, learning rate \<open>l\<close> and loss window \<open>ll\<close>.
\<close>

definition toy_model :: model where
  "toy_model = \<lparr>x_dim = 1, n_class = 2, x_min = - 100, x_max = 100,
      score = (\<lambda>x j. if j = 1 then min (sum_list x) (4 - 3 * sum_list x) else 0),
      label = (\<lambda>x. if 50 < sum_list x then 1 else 0)\<rparr>"

definition toy_rng :: rng where
  "toy_rng = (\<lambda>t s c. 1)"

definition toy_nes :: "string \<Rightarrow> string \<Rightarrow> nes" where
  "toy_nes g dm = \<lparr>model = toy_model, goal = g, distance_metric = dm, samples_per_draw = 2,
     update_x_adv_step = (if dm = ''l_2'' then l2_step toy_model else linf_step toy_model)\<rparr>"

definition toy_config :: "int \<Rightarrow> real \<Rightarrow> config" where
  "toy_config mq ml =
     \<lparr>max_queries = mq, lr = 1, min_lr = ml, lr_tuning = True, plateau_length = 2\<rparr>"

definition toy_session :: "real \<Rightarrow> real \<Rightarrow> real \<Rightarrow> vars" where
  "toy_session v e l =
     \<lparr>x_var = [0], x_adv_var = [v], ys_var = [0, 0], eps_var = e, sigma_var = 1, lr_var = l\<rparr>"

definition toy_state :: "real \<Rightarrow> real \<Rightarrow> real list \<Rightarrow> nat \<Rightarrow> loop_state" where
  "toy_state v l ll n =
     \<lparr>session = toy_session v 10 l, last_loss = ll, queries = 2 * int n, lr_local = l,
      iters = n, checks = Suc n\<rparr>"

section \<open>Facts about the tensor operations\<close>

lemma length_tf_add: "length (tf_add xs ys) = min (length xs) (length ys)"
  by (simp add: tf_add_def)

lemma nth_tf_add:
  "i < length xs \<Longrightarrow> i < length ys \<Longrightarrow> tf_add xs ys ! i = xs ! i + ys ! i"
  by (simp add: tf_add_def)



lemma length_tf_neg: "length (tf_neg xs) = length xs"
  by (simp add: tf_neg_def)

lemma nth_tf_neg: "i < length xs \<Longrightarrow> tf_neg xs ! i = - (xs ! i)"
  by (simp add: tf_neg_def)


lemma tf_add_assoc:
  "tf_add (tf_add xs ys) zs = tf_add xs (tf_add ys zs)"
  by (rule nth_equalityI) (simp_all add: length_tf_add nth_tf_add)

lemma tf_add_zero_left: "length w = n \<Longrightarrow> tf_add (replicate n 0) w = w"
  by (rule nth_equalityI) (simp_all add: length_tf_add nth_tf_add)


lemma tf_add_neg: "length v = n \<Longrightarrow> tf_add v (tf_neg v) = replicate n 0"
  by (rule nth_equalityI) (simp_all add: length_tf_add nth_tf_add length_tf_neg nth_tf_neg)

lemma tf_neg_add: "tf_neg (tf_add xs ys) = tf_add (tf_neg xs) (tf_neg ys)"
  by (rule nth_equalityI) (simp_all add: length_tf_add nth_tf_add length_tf_neg nth_tf_neg)

lemma tf_neg_zero: "tf_neg (replicate n 0) = replicate n 0"
  by (simp add: tf_neg_def)



lemma sum_squares_nonneg: "0 \<le> sum_list (map (\<lambda>v::real. v * v) xs)"
  by (induction xs) simp_all

lemma tf_norm_nonneg: "0 \<le> tf_norm xs"
  by (simp add: tf_norm_def sum_squares_nonneg)








lemma length_reduce_sum0:
  "\<forall>p \<in> set ps. length p = n \<Longrightarrow> length (reduce_sum0 n ps) = n"
  by (induction ps) (simp_all add: reduce_sum0_def length_tf_add)

lemma foldr_tf_add:
  "length w = n \<Longrightarrow> foldr tf_add ps w = tf_add (reduce_sum0 n ps) w"
  by (induction ps) (simp_all add: reduce_sum0_def tf_add_zero_left tf_add_assoc)

lemma reduce_sum0_append:
  "\<forall>q \<in> set qs. length q = n \<Longrightarrow>
     reduce_sum0 n (ps @ qs) = tf_add (reduce_sum0 n ps) (reduce_sum0 n qs)"
  using foldr_tf_add [of "reduce_sum0 n qs" n ps]
  by (simp add: length_reduce_sum0) (simp add: reduce_sum0_def)

lemma reduce_sum0_neg: "reduce_sum0 n (map tf_neg ps) = tf_neg (reduce_sum0 n ps)"
  by (induction ps) (simp_all add: reduce_sum0_def tf_neg_zero tf_neg_add)

lemma reduce_sum0_antithetic:
  assumes "\<forall>p \<in> set ps. length p = n"
  shows "reduce_sum0 n (ps @ map tf_neg ps) = replicate n 0"
proof -
  have "\<forall>q \<in> set (map tf_neg ps). length q = n"
    using assms by (simp add: length_tf_neg)
  then have "reduce_sum0 n (ps @ map tf_neg ps)
      = tf_add (reduce_sum0 n ps) (tf_neg (reduce_sum0 n ps))"
    by (simp only: reduce_sum0_append reduce_sum0_neg)
  then show ?thesis
    using assms by (simp add: tf_add_neg length_reduce_sum0)
qed

lemma length_random_normal: "length (random_normal r t k n) = k"
  by (simp add: random_normal_def)

lemma random_normal_shape: "p \<in> set (random_normal r t k n) \<Longrightarrow> length p = n"
  by (auto simp: random_normal_def)



section \<open>Facts about the object, the graph and the loop\<close>

lemma NES_init_fields:
  "NES_init m g dm spd = Inr a \<Longrightarrow>
     model a = m \<and> goal a = g \<and> distance_metric a = dm \<and>
     samples_per_draw a = (spd div 2) * 2 \<and>
     (dm = ''l_2'' \<and> update_x_adv_step a = l2_step m \<or>
      dm = ''l_inf'' \<and> update_x_adv_step a = linf_step m)"
  by (auto simp: NES_init_def build_update_def split: if_splits)

lemma run_loss_update_session:
  "run_loss_update a st ps = Inr (l, st') \<Longrightarrow>
     l = loss (model a) st ps \<and>
     update_x_adv_step a st (grad (model a) (goal a) st ps) = Inr (x_adv_var st') \<and>
     st' = st\<lparr>x_adv_var := x_adv_var st'\<rparr>"
  by (auto simp: run_loss_update_def split: if_splits sum.splits)

text \<open>Where the window has the length \<^verbatim>\<open>plateau_length\<close> it is not empty, so
  \<^verbatim>\<open>last_loss[-1]\<close> and \<^verbatim>\<open>last_loss[0]\<close> are read in range.\<close>

lemma plateau_window_nonempty:
  "int (length (py_slice_from_neg (xs @ [v]) p)) = p \<Longrightarrow> py_slice_from_neg (xs @ [v]) p \<noteq> []"
  by (auto simp: py_slice_from_neg_def split: if_splits)

lemma tune_lr_counters:
  "queries (tune_lr c a ml s) = queries s \<and> iters (tune_lr c a ml s) = iters s \<and>
   checks (tune_lr c a ml s) = checks s"
  by (simp add: tune_lr_def halve_lr_def Let_def)

lemma tune_lr_cases:
  "tune_lr c a ml s =
     (if lr_tuning c \<and>
         plateau_detected c a (py_slice_from_neg (last_loss s @ [ml]) (plateau_length c))
      then halve_lr c (s\<lparr>last_loss := py_slice_from_neg (last_loss s @ [ml]) (plateau_length c)\<rparr>)
      else if lr_tuning c
      then s\<lparr>last_loss := py_slice_from_neg (last_loss s @ [ml]) (plateau_length c)\<rparr>
      else s)"
  by (auto simp: tune_lr_def plateau_detected_def Let_def)

lemma loop_body_counters:
  "loop_body c a r s = Inr s' \<Longrightarrow>
     queries s' = queries s + int (samples_per_draw a) \<and> iters s' = Suc (iters s) \<and>
     checks s' = checks s"
  by (auto simp: loop_body_def tune_lr_counters split: sum.splits prod.splits)

lemma loop_body_unfold:
  assumes "loop_body c a r s = Inr s'"
  shows "\<exists>st'. run_loss_update a (session s)
            (perts (samples_per_draw a) (x_dim (model a)) r (iters s))
          = Inr (loss (model a) (session s)
                   (perts (samples_per_draw a) (x_dim (model a)) r (iters s)), st') \<and>
         s' = tune_lr c a
                (np_mean (loss (model a) (session s)
                   (perts (samples_per_draw a) (x_dim (model a)) r (iters s))))
                (s\<lparr>session := st', queries := queries s + int (samples_per_draw a),
                   iters := Suc (iters s)\<rparr>)"
  using assms
  by (auto simp: loop_body_def split: sum.splits prod.splits dest: run_loss_update_session)

lemma attack_loop_exhausted:
  "\<not> queries s < max_queries c \<Longrightarrow> attack_loop c a r y y_target s = Inr s"
  by (simp add: attack_loop.simps [of c a r y y_target s])

lemma attack_loop_step:
  "queries s < max_queries c \<Longrightarrow> loop_body c a r s = Inr s' \<Longrightarrow>
   \<not> is_adversarial a (session s') y y_target \<Longrightarrow>
   attack_loop c a r y y_target s = attack_loop c a r y y_target (s'\<lparr>checks := Suc (checks s')\<rparr>)"
  by (simp add: attack_loop.simps [of c a r y y_target s])

lemma attack_loop_once:
  assumes "queries s < max_queries c"
    and "max_queries c \<le> queries s + int (samples_per_draw a)"
  shows "attack_loop c a r y y_target s =
           (case loop_body c a r s of
              Inl e \<Rightarrow> Inl e
            | Inr s' \<Rightarrow> Inr (s'\<lparr>checks := Suc (checks s')\<rparr>))"
proof (cases "loop_body c a r s")
  case (Inl e)
  with assms(1) show ?thesis
    by (simp add: attack_loop.simps [of c a r y y_target s])
next
  case (Inr s')
  let ?s2 = "s'\<lparr>checks := Suc (checks s')\<rparr>"
  have "\<not> queries ?s2 < max_queries c"
    using loop_body_counters [OF Inr] assms(2) by simp
  then have "attack_loop c a r y y_target ?s2 = Inr ?s2"
    by (rule attack_loop_exhausted)
  with Inr assms(1) show ?thesis
    by (simp add: attack_loop.simps [of c a r y y_target s] Let_def)
qed

lemma attack_loop_accounting:
  "attack_loop c a r y y_target s = Inr s' \<Longrightarrow>
   queries s = int (iters s) * int (samples_per_draw a) \<Longrightarrow> checks s = Suc (iters s) \<Longrightarrow>
   queries s' = int (iters s') * int (samples_per_draw a) \<and> checks s' = Suc (iters s')"
proof (induction c a r y y_target s rule: attack_loop.induct)
  case (1 c a r y y_target s)
  show ?case
  proof (cases "queries s < max_queries c")
    case False
    with "1.prems" show ?thesis
      by (simp add: attack_loop.simps [of c a r y y_target s])
  next
    case True
    with "1.prems"(1) obtain s1 where body: "loop_body c a r s = Inr s1"
      by (auto simp: attack_loop.simps [of c a r y y_target s] split: sum.splits)
    let ?s2 = "s1\<lparr>checks := Suc (checks s1)\<rparr>"
    have inv: "queries ?s2 = int (iters ?s2) * int (samples_per_draw a)"
      "checks ?s2 = Suc (iters ?s2)"
      using loop_body_counters [OF body] "1.prems"(2,3) by (simp_all add: algebra_simps)
    show ?thesis
    proof (cases "is_adversarial a (session ?s2) y y_target")
      case True
      with \<open>queries s < max_queries c\<close> body "1.prems"(1) have "s' = ?s2"
        by (simp add: attack_loop.simps [of c a r y y_target s])
      with inv show ?thesis by simp
    next
      case False
      with \<open>queries s < max_queries c\<close> body "1.prems"(1)
      have "attack_loop c a r y y_target ?s2 = Inr s'"
        by (simp add: attack_loop.simps [of c a r y y_target s])
      with "1.IH" [OF \<open>queries s < max_queries c\<close> body refl False] inv
      show ?thesis by simp
    qed
  qed
qed

lemma is_adversarial_entry:
  "is_adversarial a (session (entry c a st0 x y y_target)) y y_target =
     (if goal a = ''ut'' \<or> goal a = ''tm'' then label (model a) x \<noteq> y
      else label (model a) x = y_target)"
  by (simp add: is_adversarial_def label_pred_def logits_and_labels_def entry_def
        run_setup_def)

text \<open>With a positive magnitude, a sample, a class and a non-zero \<^verbatim>\<open>sigma_var\<close> no
  operation of an iteration leaves the finite numbers, and \<^verbatim>\<open>attack\<close> returns.\<close>

lemma grad_norm_floor: "1 / 10 ^ 12 \<le> grad_norm gr \<and> 0 < grad_norm gr"
proof -
  have "(0::real) < 1 / 10 ^ 12" by simp
  moreover have "1 / 10 ^ 12 \<le> grad_norm gr"
    unfolding grad_norm_def by (rule max.cobounded1)
  ultimately show ?thesis by linarith
qed

lemma x_adv_delta_l2_value:
  "x_adv_delta_l2 st gr =
     Inr (tf_add (tf_sub (x_adv_var st) (x_var st))
            (tf_div (tf_scale (lr_var st) gr) (grad_norm gr)))"
  using grad_norm_floor [of gr] by (simp add: x_adv_delta_l2_def tf_div_checked_def)

lemma clip_by_norm_total: "0 < c \<Longrightarrow> \<exists>d. clip_by_norm xs c = Inr d"
  by (auto simp: clip_by_norm_def Let_def max_def)

lemma loop_body_total:
  assumes "NES_init m g dm spd = Inr a"
    and "0 < eps_var (session s)" and "0 < samples_per_draw a" and "0 < n_class m"
    and "sigma_var (session s) \<noteq> 0"
  shows "\<exists>s'. loop_body c a r s = Inr s'"
proof -
  note init = NES_init_fields [OF assms(1)]
  have "\<exists>x'. update_x_adv_step a (session s) gr = Inr x'" for gr
  proof -
    from init consider "update_x_adv_step a = l2_step m" | "update_x_adv_step a = linf_step m"
      by auto
    then show ?thesis
    proof cases
      case 1
      from assms(2) obtain d where
        "clip_by_norm (tf_add (tf_sub (x_adv_var (session s)) (x_var (session s)))
            (tf_div (tf_scale (lr_var (session s)) gr) (grad_norm gr)))
           (eps_var (session s)) = Inr d"
        using clip_by_norm_total by blast
      then show ?thesis by (simp add: 1 l2_step_def x_adv_delta_l2_value)
    next
      case 2
      show ?thesis by (simp add: 2 linf_step_def)
    qed
  qed
  then obtain x' where "update_x_adv_step a (session s)
      (grad (model a) (goal a) (session s)
         (perts (samples_per_draw a) (x_dim (model a)) r (iters s))) = Inr x'"
    by blast
  with assms(3-5) init show ?thesis
    by (simp add: loop_body_def run_loss_update_def)
qed

lemma loop_body_frame:
  assumes "loop_body c a r s = Inr s'"
  shows "eps_var (session s') = eps_var (session s) \<and>
         sigma_var (session s') = sigma_var (session s) \<and>
         x_var (session s') = x_var (session s)"
proof -
  from loop_body_unfold [OF assms] obtain st' ml where
    run: "run_loss_update a (session s)
            (perts (samples_per_draw a) (x_dim (model a)) r (iters s))
          = Inr (loss (model a) (session s)
                   (perts (samples_per_draw a) (x_dim (model a)) r (iters s)), st')"
    and s': "s' = tune_lr c a ml
                (s\<lparr>session := st', queries := queries s + int (samples_per_draw a),
                   iters := Suc (iters s)\<rparr>)"
    by blast
  from run_loss_update_session [OF run] have st': "st' = (session s)\<lparr>x_adv_var := x_adv_var st'\<rparr>"
    by simp
  have "eps_var st' = eps_var (session s) \<and> sigma_var st' = sigma_var (session s) \<and>
      x_var st' = x_var (session s)"
    by (subst (1 2 3) st') simp
  then show ?thesis
    unfolding s' tune_lr_cases halve_lr_def Let_def by simp
qed

lemma attack_loop_total:
  "NES_init m g dm spd = Inr a \<Longrightarrow> 0 < samples_per_draw a \<Longrightarrow> 0 < n_class m \<Longrightarrow>
   0 < eps_var (session s) \<Longrightarrow> sigma_var (session s) \<noteq> 0 \<Longrightarrow>
   \<exists>s'. attack_loop c a r y y_target s = Inr s'"
proof (induction c a r y y_target s rule: attack_loop.induct)
  case (1 c a r y y_target s)
  note setting = "1.prems"(1-3) and inv = "1.prems"(4,5)
  show ?case
  proof (cases "queries s < max_queries c")
    case False
    then show ?thesis
      by (simp add: attack_loop_exhausted)
  next
    case True
    from loop_body_total [OF setting(1) inv(1) setting(2,3) inv(2)]
    obtain s1 where body: "loop_body c a r s = Inr s1"
      by blast
    let ?s2 = "s1\<lparr>checks := Suc (checks s1)\<rparr>"
    have inv2: "0 < eps_var (session ?s2)" "sigma_var (session ?s2) \<noteq> 0"
      using loop_body_frame [OF body] inv by simp_all
    show ?thesis
    proof (cases "is_adversarial a (session ?s2) y y_target")
      case True
      with \<open>queries s < max_queries c\<close> body show ?thesis
        by (simp add: attack_loop.simps [of c a r y y_target s])
    next
      case False
      from "1.IH" [OF \<open>queries s < max_queries c\<close> body refl False setting inv2]
      obtain s' where "attack_loop c a r y y_target ?s2 = Inr s'"
        by blast
      with \<open>queries s < max_queries c\<close> body False show ?thesis
        by (simp add: attack_loop.simps [of c a r y y_target s])
    qed
  qed
qed

lemma attack_total:
  assumes "NES_init m g dm spd = Inr a" and "length x = x_dim m"
    and "0 < samples_per_draw a" and "0 < n_class m"
    and "0 < eps_var init_vars" and "sigma_var init_vars \<noteq> 0"
  shows "\<exists>out. attack c a r init_vars x y y_target = Inr out"
proof -
  let ?s = "entry c a init_vars x y y_target"
  have "0 < eps_var (session ?s)" "sigma_var (session ?s) \<noteq> 0"
    using assms(5,6) by (simp_all add: entry_def run_setup_def)
  from attack_loop_total [OF assms(1,3,4) this]
  obtain s' where "attack_loop c a r y y_target ?s = Inr s'"
    by blast
  then show ?thesis
    using assms(2) NES_init_fields [OF assms(1)] by (simp add: attack_def Let_def)
qed

section \<open>Runs of the concrete instance\<close>

lemma upt_2: "[0..<2] = [0, Suc 0]"
  by (simp add: upt_rec)

lemmas graph_defs = perts_def random_normal_def points_def loss_def grad_def
  logits_and_labels_def logits_def logit_this_def logit_that_def one_hot_def
  x_adv_delta_linf_def linf_step_def reduce_mean0_def reduce_sum0_def np_mean_def
  tf_add_def tf_sub_def tf_scale_def tf_neg_def tf_div_def tf_sign_def clip_by_value_def
  run_loss_update_def

lemmas toy_defs = toy_model_def toy_rng_def toy_nes_def toy_config_def toy_session_def
  toy_state_def

lemma toy_proj:
  "queries (toy_state v l ll n) = 2 * int n"
  "checks (toy_state v l ll n) = Suc n"
  "x_adv_var (session (toy_state v l ll n)) = [v]"
  "max_queries (toy_config mq ml) = mq"
  "samples_per_draw (toy_nes g dm) = 2"
  "model (toy_nes g dm) = toy_model"
  "x_dim toy_model = 1"
  by (simp_all add: toy_defs)

lemma toy_checks: "(toy_state v l ll n)\<lparr>checks := Suc n\<rparr> = toy_state v l ll n"
  by (simp add: toy_state_def)

lemma toy_init: "NES_init toy_model g ''l_inf'' 3 = Inr (toy_nes g ''l_inf'')"
  "NES_init toy_model g ''l_2'' 3 = Inr (toy_nes g ''l_2'')"
  by (simp_all add: NES_init_def build_update_def toy_nes_def)

lemma toy_entry:
  "entry (toy_config mq ml) (toy_nes ''ut'' dm) (toy_session 0 10 0) [0] 0 1 = toy_state 0 1 [] 0"
  by (simp add: entry_def run_setup_def toy_defs numeral_2_eq_2)

lemma toy_not_adversarial:
  "\<not> is_adversarial (toy_nes ''ut'' dm) (session (toy_state v l ll n)) 0 1 \<or> 50 < v"
  by (simp add: is_adversarial_def label_pred_def logits_and_labels_def toy_defs)

lemma toy_perts: "perts 2 (Suc 0) toy_rng t = [[1], [- 1]]"
  by (simp add: perts_def random_normal_def tf_neg_def toy_rng_def)

lemma toy_step1:
  "loop_body (toy_config mq ml) (toy_nes ''ut'' ''l_inf'') toy_rng (toy_state 0 1 [] 0)
     = Inr ((toy_state 1 1 [0] (Suc 0))\<lparr>checks := Suc 0\<rparr>)"
  by (simp add: loop_body_def tune_lr_def halve_lr_def py_slice_from_neg_def graph_defs
        toy_defs upt_2)

lemma toy_step2:
  "loop_body (toy_config mq ml) (toy_nes ''ut'' ''l_inf'') toy_rng (toy_state 1 1 [0] (Suc 0))
     = Inr ((toy_state 0 (max (1 / 2) ml) [] (Suc (Suc 0)))\<lparr>checks := Suc (Suc 0)\<rparr>)"
  by (simp add: loop_body_def tune_lr_def halve_lr_def py_slice_from_neg_def graph_defs
        toy_defs upt_2 Let_def numeral_2_eq_2)

lemma toy_run1:
  "attack (toy_config 1 ml) (toy_nes ''ut'' ''l_inf'') toy_rng (toy_session 0 10 0) [0] 0 1
     = Inr \<lparr>returned = [1], details_queries = 2, final = toy_state 1 1 [0] (Suc 0)\<rparr>"
proof -
  have "attack_loop (toy_config 1 ml) (toy_nes ''ut'' ''l_inf'') toy_rng 0 1 (toy_state 0 1 [] 0)
      = Inr (toy_state 1 1 [0] (Suc 0))"
    using attack_loop_once [of "toy_state 0 1 [] 0" "toy_config 1 ml" "toy_nes ''ut'' ''l_inf''" toy_rng 0 1]
    by (simp add: toy_step1 toy_proj toy_checks)
  then show ?thesis
    using toy_not_adversarial [of "''l_inf''" 0 1 "[]" 0]
    by (simp add: attack_def toy_entry Let_def toy_proj)
qed

lemma toy_run2:
  "attack (toy_config 4 ml) (toy_nes ''ut'' ''l_inf'') toy_rng (toy_session 0 10 0) [0] 0 1
     = Inr \<lparr>returned = [0], details_queries = 4, final = toy_state 0 (max (1 / 2) ml) [] (Suc (Suc 0))\<rparr>"
proof -
  let ?c = "toy_config 4 ml" and ?a = "toy_nes ''ut'' ''l_inf''"
  have "attack_loop ?c ?a toy_rng 0 1 (toy_state 0 1 [] 0)
      = attack_loop ?c ?a toy_rng 0 1 (toy_state 1 1 [0] (Suc 0))"
    using attack_loop_step [of "toy_state 0 1 [] 0" ?c ?a toy_rng _ 0 1, OF _ toy_step1]
      toy_not_adversarial [of "''l_inf''" 1 1 "[0]" "Suc 0"]
    by (simp add: toy_proj toy_checks)
  also have "\<dots> = Inr (toy_state 0 (max (1 / 2) ml) [] (Suc (Suc 0)))"
    using attack_loop_once [of "toy_state 1 1 [0] (Suc 0)" ?c ?a toy_rng 0 1]
    by (simp add: toy_step2 toy_proj toy_checks)
  finally show ?thesis
    using toy_not_adversarial [of "''l_inf''" 0 1 "[]" 0]
    by (simp add: attack_def toy_entry Let_def toy_proj)
qed


lemma toy_loss_tm:
  "loss toy_model
     (run_setup (toy_config 4 1) (toy_nes ''tm'' ''l_inf'') (toy_session 0 10 0) [0] 0 1)
     [[1], [- 1]] = [- 1, 1]"
  by (simp add: graph_defs toy_defs upt_2 run_setup_def numeral_2_eq_2)


section \<open>C9: the distance metric is checked at construction\<close>

text \<open>
  C9. Constructing the attack with a distance metric other than \<^verbatim>\<open>'l_2'\<close> and
  \<^verbatim>\<open>'l_inf'\<close> ends in \<^verbatim>\<open>NotImplementedError\<close>, and exactly then; with \<^verbatim>\<open>'l_2'\<close> or
  \<^verbatim>\<open>'l_inf'\<close> the construction yields an object.
\<close>

theorem NES_init_metric:
  "(NES_init m g dm spd = Inl NotImplementedError) = (dm \<noteq> ''l_2'' \<and> dm \<noteq> ''l_inf'') \<and>
   (\<exists>a. NES_init m g dm spd = Inr a) = (dm = ''l_2'' \<or> dm = ''l_inf'')"
  by (simp add: NES_init_def build_update_def)

text \<open>The three cases on the concrete classifier.\<close>

theorem NES_init_metric_witness:
  "NES_init toy_model ''ut'' ''l_1'' 2 = Inl NotImplementedError \<and>
   (\<exists>a. NES_init toy_model ''ut'' ''l_2'' 2 = Inr a) \<and>
   (\<exists>a. NES_init toy_model ''ut'' ''l_inf'' 2 = Inr a)"
  using NES_init_metric [of toy_model "''ut''" "''l_1''" 2]
    NES_init_metric [of toy_model "''ut''" "''l_2''" 2]
    NES_init_metric [of toy_model "''ut''" "''l_inf''" 2]
  by simp

section \<open>C8: the perturbation batch is antithetic\<close>

text \<open>
  C8. For an object built by \<^verbatim>\<open>__init__\<close> and any draw \<open>t\<close>, the batch of perturbations has
  \<open>2 k\<close> tensors, \<open>k\<close> being half of \<^verbatim>\<open>samples_per_draw\<close>: its first \<open>k\<close> tensors are the
  drawn ones, tensor \<open>i + k\<close> is the negation of tensor \<open>i\<close> for every \<open>i < k\<close>, and the batch
  sums to the zero tensor.
\<close>

theorem perts_antithetic:
  assumes "NES_init m g dm spd = Inr a"
    and "ps = perts (samples_per_draw a) (x_dim (model a)) r t"
    and "k = samples_per_draw a div 2"
  shows "length ps = 2 * k \<and> samples_per_draw a = 2 * k \<and>
         take k ps = random_normal r t k (x_dim (model a)) \<and>
         (\<forall>i < k. ps ! (i + k) = tf_neg (ps ! i)) \<and>
         reduce_sum0 (x_dim (model a)) ps = replicate (x_dim (model a)) 0"
proof -
  let ?n = "x_dim (model a)"
  let ?p = "random_normal r t k ?n"
  have ps: "ps = ?p @ map tf_neg ?p"
    using assms(2,3) by (simp add: perts_def Let_def)
  have len: "length ?p = k"
    by (rule length_random_normal)
  have even: "samples_per_draw a = 2 * k"
    using NES_init_fields [OF assms(1)] assms(3) by simp
  have nth: "\<forall>i < k. ps ! (i + k) = tf_neg (ps ! i)"
    using len by (simp add: ps nth_append)
  have "\<forall>p \<in> set ?p. length p = ?n"
    by (simp add: random_normal_shape)
  then have "reduce_sum0 ?n ps = replicate ?n 0"
    unfolding ps by (rule reduce_sum0_antithetic)
  with len even nth show ?thesis
    by (simp add: ps)
qed

text \<open>The batch of the concrete instance, at \<open>i = 0\<close>.\<close>

theorem perts_antithetic_witness:
  "length (perts 2 1 toy_rng 0) = 2 \<and>
   perts 2 1 toy_rng 0 ! (0 + 1) = tf_neg (perts 2 1 toy_rng 0 ! 0) \<and>
   reduce_sum0 1 (perts 2 1 toy_rng 0) = [0]"
  using perts_antithetic [OF toy_init(1) [of "''ut''"] refl refl, of toy_rng 0]
  by (simp add: toy_proj)

section \<open>C5: the recorded query count\<close>

text \<open>
  C5. Whenever \<^verbatim>\<open>attack\<close> returns, \<^verbatim>\<open>details['queries']\<close> is the number of executed
  loop bodies times \<^verbatim>\<open>samples_per_draw\<close>, hence a multiple of it. The success predicate
  has then been evaluated once more than the loop body has run, and none of its
  evaluations is counted. And \<^verbatim>\<open>attack\<close> does return, for an object built by \<^verbatim>\<open>__init__\<close>
  and an input of the right shape, when the magnitude is positive, \<^verbatim>\<open>sigma_var\<close> is
  not 0 and there is a sample and a class.
\<close>

theorem queries_multiple_of_samples_per_draw:
  "(attack c a r init_vars x y y_target = Inr out \<longrightarrow>
      details_queries out = int (iters (final out)) * int (samples_per_draw a) \<and>
      checks (final out) = Suc (iters (final out))) \<and>
   (NES_init m g dm spd = Inr a \<and> length x = x_dim m \<and> 0 < samples_per_draw a \<and>
    0 < n_class m \<and> 0 < eps_var init_vars \<and> sigma_var init_vars \<noteq> 0 \<longrightarrow>
      (\<exists>res. attack c a r init_vars x y y_target = Inr res))"
proof (rule conjI)
  show "attack c a r init_vars x y y_target = Inr out \<longrightarrow>
      details_queries out = int (iters (final out)) * int (samples_per_draw a) \<and>
      checks (final out) = Suc (iters (final out))"
  proof (rule impI)
    assume run: "attack c a r init_vars x y y_target = Inr out"
    show "details_queries out = int (iters (final out)) * int (samples_per_draw a) \<and>
        checks (final out) = Suc (iters (final out))"
    proof (cases "is_adversarial a (session (entry c a init_vars x y y_target)) y y_target")
      case True
      with run show ?thesis
        by (auto simp: attack_def entry_def Let_def split: if_splits)
    next
      case False
      with run obtain s' where
        loop: "attack_loop c a r y y_target (entry c a init_vars x y y_target) = Inr s'"
        and out: "out = \<lparr>returned = x_adv_var (session s'), details_queries = queries s',
                        final = s'\<rparr>"
        by (auto simp: attack_def Let_def split: if_splits sum.splits)
      from attack_loop_accounting [OF loop] out show ?thesis
        by (simp add: entry_def)
    qed
  qed
next
  show "NES_init m g dm spd = Inr a \<and> length x = x_dim m \<and> 0 < samples_per_draw a \<and>
      0 < n_class m \<and> 0 < eps_var init_vars \<and> sigma_var init_vars \<noteq> 0 \<longrightarrow>
      (\<exists>res. attack c a r init_vars x y y_target = Inr res)"
    by (rule impI) (use attack_total [of m g dm spd a x init_vars c r y y_target] in blast)
qed

text \<open>The run of the concrete instance with a budget of 4 queries: two iterations.\<close>

theorem queries_multiple_witness:
  "details_queries
     \<lparr>returned = [0], details_queries = 4, final = toy_state 0 (1 / 2) [] (Suc (Suc 0))\<rparr>
     = int (iters (toy_state 0 (1 / 2) [] (Suc (Suc 0)))) *
       int (samples_per_draw (toy_nes ''ut'' ''l_inf'')) \<and>
   checks (toy_state 0 (1 / 2) [] (Suc (Suc 0))) = Suc (iters (toy_state 0 (1 / 2) [] (Suc (Suc 0)))) \<and>
   (\<exists>res. attack (toy_config 4 (1 / 4)) (toy_nes ''ut'' ''l_inf'') toy_rng (toy_session 0 10 0)
            [0] 0 1 = Inr res)"
proof -
  have ok: "length [0 :: real] = x_dim toy_model"
    "0 < samples_per_draw (toy_nes ''ut'' ''l_inf'')" "0 < n_class toy_model"
    "0 < eps_var (toy_session 0 10 0)" "sigma_var (toy_session 0 10 0) \<noteq> 0"
    by (simp_all add: toy_defs)
  from queries_multiple_of_samples_per_draw
    [where c = "toy_config 4 (1 / 4)" and a = "toy_nes ''ut'' ''l_inf''" and r = toy_rng
       and init_vars = "toy_session 0 10 0" and x = "[0]" and y = 0 and y_target = 1
       and out = "\<lparr>returned = [0], details_queries = 4,
                   final = toy_state 0 (1 / 2) [] (Suc (Suc 0))\<rparr>"
       and m = toy_model and g = "''ut''" and dm = "''l_inf''" and spd = 3]
    toy_run2 [of "1 / 4"] toy_init(1) [of "''ut''"] ok
  show ?thesis by simp
qed

section \<open>C7: early exit\<close>

text \<open>
  C7. If the success predicate holds on the input (the predicted label differs from \<open>y\<close>
  for the goals \<^verbatim>\<open>'ut'\<close> and \<^verbatim>\<open>'tm'\<close>, equals \<open>y_target\<close> otherwise), \<^verbatim>\<open>attack\<close> returns
  the input itself, records 0 queries and has executed no loop body, so no loss has been
  evaluated.
\<close>

theorem early_exit:
  assumes "length x = x_dim (model a)"
    and "if goal a = ''ut'' \<or> goal a = ''tm'' then label (model a) x \<noteq> y
         else label (model a) x = y_target"
  shows "\<exists>out. attack c a r st0 x y y_target = Inr out \<and> returned out = x \<and>
           details_queries out = 0 \<and> iters (final out) = 0"
  using assms by (simp add: attack_def Let_def is_adversarial_entry) (simp add: entry_def)

text \<open>The input \<open>[60]\<close> of the concrete instance is predicted as label 1, not 0.\<close>

theorem early_exit_witness:
  "\<exists>out. attack (toy_config 4 1) (toy_nes ''ut'' ''l_inf'') toy_rng (toy_session 0 10 0) [60] 0 1
      = Inr out \<and> returned out = [60] \<and> details_queries out = 0 \<and> iters (final out) = 0"
proof -
  let ?a = "toy_nes ''ut'' ''l_inf''"
  have h: "length [60 :: real] = x_dim (model ?a)"
    "if goal ?a = ''ut'' \<or> goal ?a = ''tm'' then label (model ?a) [60] \<noteq> 0
     else label (model ?a) [60] = 1"
    by (simp_all add: toy_defs)
  from early_exit [OF h] show ?thesis .
qed

section \<open>C3: a budget smaller than one draw\<close>

text \<open>
  C3, as amended. For an input that is not adversarial: when \<^verbatim>\<open>max_queries\<close> is at most 0
  the loop body is not executed, the input is returned and 0 queries are recorded; when
  \<^verbatim>\<open>max_queries\<close> is positive and at most \<^verbatim>\<open>samples_per_draw\<close> the loop body is executed
  exactly once, the candidate of that iteration is returned and \<^verbatim>\<open>samples_per_draw\<close>
  queries are recorded.
\<close>

theorem small_budget:
  assumes "length x = x_dim (model a)"
    and "\<not> (if goal a = ''ut'' \<or> goal a = ''tm'' then label (model a) x \<noteq> y
            else label (model a) x = y_target)"
  shows "(max_queries c \<le> 0 \<longrightarrow>
            attack c a r st0 x y y_target =
              Inr \<lparr>returned = x, details_queries = 0, final = entry c a st0 x y y_target\<rparr>) \<and>
         (0 < max_queries c \<and> max_queries c \<le> int (samples_per_draw a) \<longrightarrow>
            attack c a r st0 x y y_target =
              (case loop_body c a r (entry c a st0 x y y_target) of
                 Inl e \<Rightarrow> Inl e
               | Inr s' \<Rightarrow>
                   Inr \<lparr>returned = x_adv_var (session s'),
                        details_queries = int (samples_per_draw a),
                        final = s'\<lparr>checks := Suc (Suc 0)\<rparr>\<rparr>))"
proof (intro conjI impI)
  let ?s = "entry c a st0 x y y_target"
  have q0: "queries ?s = 0" and x0: "x_adv_var (session ?s) = x"
    by (simp_all add: entry_def run_setup_def)
  {
    assume "max_queries c \<le> 0"
    then have "attack_loop c a r y y_target ?s = Inr ?s"
      using q0 by (simp add: attack_loop_exhausted)
    with assms q0 x0
    show "attack c a r st0 x y y_target = Inr \<lparr>returned = x, details_queries = 0, final = ?s\<rparr>"
      by (simp add: attack_def Let_def is_adversarial_entry)
  }
  {
    assume b: "0 < max_queries c \<and> max_queries c \<le> int (samples_per_draw a)"
    then have once: "attack_loop c a r y y_target ?s =
        (case loop_body c a r ?s of Inl e \<Rightarrow> Inl e
         | Inr s' \<Rightarrow> Inr (s'\<lparr>checks := Suc (checks s')\<rparr>))"
      using q0 by (simp add: attack_loop_once)
    show "attack c a r st0 x y y_target =
              (case loop_body c a r ?s of
                 Inl e \<Rightarrow> Inl e
               | Inr s' \<Rightarrow>
                   Inr \<lparr>returned = x_adv_var (session s'),
                        details_queries = int (samples_per_draw a),
                        final = s'\<lparr>checks := Suc (Suc 0)\<rparr>\<rparr>)"
    proof (cases "loop_body c a r ?s")
      case (Inl e)
      with assms once show ?thesis
        by (simp add: attack_def Let_def is_adversarial_entry)
    next
      case (Inr s')
      have "checks s' = Suc 0" "queries s' = int (samples_per_draw a)"
        using loop_body_counters [OF Inr] q0 by (simp_all add: entry_def)
      with Inr assms once show ?thesis
        by (simp add: attack_def Let_def is_adversarial_entry)
    qed
  }
qed

text \<open>
  The claim as stated fails: with \<^verbatim>\<open>max_queries = 1\<close> and \<^verbatim>\<open>samples_per_draw = 2\<close> the
  guard \<^verbatim>\<open>queries < self.max_queries\<close> holds at \<^verbatim>\<open>queries = 0\<close>, the body runs once, the
  candidate \<open>[1]\<close> is returned for the input \<open>[0]\<close> and 2 queries are recorded.
\<close>

theorem small_budget_counterexample:
  "max_queries (toy_config 1 1) < int (samples_per_draw (toy_nes ''ut'' ''l_inf'')) \<and>
   \<not> is_adversarial (toy_nes ''ut'' ''l_inf'')
       (session (entry (toy_config 1 1) (toy_nes ''ut'' ''l_inf'') (toy_session 0 10 0) [0] 0 1))
       0 1 \<and>
   attack (toy_config 1 1) (toy_nes ''ut'' ''l_inf'') toy_rng (toy_session 0 10 0) [0] 0 1
     = Inr \<lparr>returned = [1], details_queries = 2, final = toy_state 1 1 [0] (Suc 0)\<rparr> \<and>
   iters (toy_state 1 1 [0] (Suc 0)) = 1"
  using toy_not_adversarial [of "''l_inf''" 0 1 "[]" 0]
  by (simp add: toy_run1 toy_entry toy_proj) (simp add: toy_defs)

text \<open>Both cases of the amended claim on the concrete instance.\<close>

theorem small_budget_witness:
  "attack (toy_config 0 1) (toy_nes ''ut'' ''l_inf'') toy_rng (toy_session 0 10 0) [0] 0 1
     = Inr \<lparr>returned = [0], details_queries = 0, final = toy_state 0 1 [] 0\<rparr> \<and>
   attack (toy_config 1 1) (toy_nes ''ut'' ''l_inf'') toy_rng (toy_session 0 10 0) [0] 0 1
     = Inr \<lparr>returned = [1], details_queries = 2, final = toy_state 1 1 [0] (Suc 0)\<rparr>"
proof -
  let ?a = "toy_nes ''ut'' ''l_inf''"
  have h: "length [0 :: real] = x_dim (model ?a)"
    "\<not> (if goal ?a = ''ut'' \<or> goal ?a = ''tm'' then label (model ?a) [0] \<noteq> 0
        else label (model ?a) [0] = 1)"
    by (simp_all add: toy_defs)
  from small_budget [OF h, of "toy_config 0 1" toy_rng "toy_session 0 10 0"]
    small_budget [OF h, of "toy_config 1 1" toy_rng "toy_session 0 10 0"]
  show ?thesis
    by (simp add: toy_proj toy_entry toy_step1 toy_checks)
qed

section \<open>C4: the learning rate used in the iteration that detects a plateau\<close>

text \<open>
  C4, as amended. In every iteration the candidate is updated first, in the same run of
  the session as the loss, with the learning rate the session holds when the iteration
  starts. When learning-rate tuning is on and the iteration then detects a plateau, the
  halved learning rate \<open>max (lr / 2) min_lr\<close> is stored for the iterations that follow and
  the window is emptied; otherwise the learning rate is unchanged.
\<close>

theorem update_uses_previous_lr:
  assumes "loop_body c a r s = Inr s'"
    and "ps = perts (samples_per_draw a) (x_dim (model a)) r (iters s)"
    and "ll = py_slice_from_neg (last_loss s @ [np_mean (loss (model a) (session s) ps)])
                (plateau_length c)"
  shows "update_x_adv_step a (session s) (grad (model a) (goal a) (session s) ps)
           = Inr (x_adv_var (session s')) \<and>
         (lr_tuning c \<and> plateau_detected c a ll \<longrightarrow>
            lr_local s' = max (lr_local s / 2) (min_lr c) \<and>
            lr_var (session s') = max (lr_local s / 2) (min_lr c) \<and> last_loss s' = []) \<and>
         (\<not> (lr_tuning c \<and> plateau_detected c a ll) \<longrightarrow>
            lr_local s' = lr_local s \<and> lr_var (session s') = lr_var (session s))"
proof -
  from loop_body_unfold [OF assms(1)] obtain st' where
    run: "run_loss_update a (session s) ps = Inr (loss (model a) (session s) ps, st')"
    and s': "s' = tune_lr c a (np_mean (loss (model a) (session s) ps))
                (s\<lparr>session := st', queries := queries s + int (samples_per_draw a),
                   iters := Suc (iters s)\<rparr>)"
    unfolding assms(2) by blast
  from run_loss_update_session [OF run]
  have upd: "update_x_adv_step a (session s) (grad (model a) (goal a) (session s) ps)
      = Inr (x_adv_var st')" and st': "st' = (session s)\<lparr>x_adv_var := x_adv_var st'\<rparr>"
    by simp_all
  have lrv: "lr_var st' = lr_var (session s)"
    by (subst st') simp
  have xs: "x_adv_var (session s') = x_adv_var st'"
    unfolding s' tune_lr_cases halve_lr_def Let_def by simp
  show ?thesis
    using upd lrv unfolding xs unfolding s' tune_lr_cases halve_lr_def Let_def assms(3)
    by simp
qed

text \<open>
  The claim as stated fails: in the second iteration of the concrete run the mean loss
  falls from 0 to -1, the plateau is detected and the learning rate goes from 1 to 1/2,
  but the candidate of that iteration is \<open>[0]\<close>, one step of length 1 from \<open>[1]\<close>; the step
  with the halved learning rate would have given \<open>[1/2]\<close>.
\<close>

theorem update_uses_previous_lr_counterexample:
  "loop_body (toy_config 4 (1 / 4)) (toy_nes ''ut'' ''l_inf'') toy_rng (toy_state 0 1 [] 0)
     = Inr ((toy_state 1 1 [0] (Suc 0))\<lparr>checks := Suc 0\<rparr>) \<and>
   loop_body (toy_config 4 (1 / 4)) (toy_nes ''ut'' ''l_inf'') toy_rng (toy_state 1 1 [0] (Suc 0))
     = Inr ((toy_state 0 (1 / 2) [] (Suc (Suc 0)))\<lparr>checks := Suc (Suc 0)\<rparr>) \<and>
   lr_tuning (toy_config 4 (1 / 4)) \<and>
   plateau_detected (toy_config 4 (1 / 4)) (toy_nes ''ut'' ''l_inf'') [0, - 1] \<and>
   lr_var (session (toy_state 1 1 [0] (Suc 0))) = 1 \<and>
   lr_var (session (toy_state 0 (1 / 2) [] (Suc (Suc 0)))) = 1 / 2 \<and>
   x_adv_var (session (toy_state 0 (1 / 2) [] (Suc (Suc 0)))) = [0] \<and>
   update_x_adv_step (toy_nes ''ut'' ''l_inf'')
       ((session (toy_state 1 1 [0] (Suc 0)))\<lparr>lr_var := 1 / 2\<rparr>)
       (grad toy_model ''ut'' (session (toy_state 1 1 [0] (Suc 0)))
          (perts 2 1 toy_rng (iters (toy_state 1 1 [0] (Suc 0)))))
     = Inr [1 / 2] \<and>
   [0] \<noteq> [1 / 2 :: real]"
  using toy_step1 [of 4 "1 / 4"] toy_step2 [of 4 "1 / 4"]
  by (simp add: toy_perts) (simp add: graph_defs toy_defs upt_2 plateau_detected_def)

text \<open>The amended claim at the second iteration of the concrete run.\<close>

theorem update_uses_previous_lr_witness:
  "update_x_adv_step (toy_nes ''ut'' ''l_inf'') (session (toy_state 1 1 [0] (Suc 0)))
       (grad (model (toy_nes ''ut'' ''l_inf'')) (goal (toy_nes ''ut'' ''l_inf''))
          (session (toy_state 1 1 [0] (Suc 0))) [[1], [- 1]])
     = Inr [0] \<and>
   lr_var (session (toy_state 1 1 [0] (Suc 0))) = 1 \<and>
   lr_var (session (toy_state 0 (1 / 2) [] (Suc (Suc 0)))) = 1 / 2"
proof -
  let ?c = "toy_config 4 (1 / 4)" and ?a = "toy_nes ''ut'' ''l_inf''"
  let ?s = "toy_state 1 1 [0] (Suc 0)"
  have ps: "[[1], [- 1]] = perts (samples_per_draw ?a) (x_dim (model ?a)) toy_rng (iters ?s)"
    by (simp add: toy_proj toy_perts)
  have pl: "lr_tuning ?c \<and> plateau_detected ?c ?a
      (py_slice_from_neg (last_loss ?s @ [np_mean (loss (model ?a) (session ?s) [[1], [- 1]])])
         (plateau_length ?c))"
    by (simp add: plateau_detected_def py_slice_from_neg_def graph_defs toy_defs upt_2)
  from update_uses_previous_lr [OF toy_step2 [of 4 "1 / 4"] ps refl] pl
  show ?thesis
    by (simp add: toy_proj) (simp add: toy_defs)
qed

section \<open>C6: the learning-rate schedule\<close>

lemma loop_body_lr:
  assumes "loop_body c a r s = Inr s'"
  shows "(lr_local s' = lr_local s \<or> lr_local s' = max (lr_local s / 2) (min_lr c)) \<and>
         (lr_local s' \<noteq> lr_local s \<longrightarrow> min_lr c \<le> lr_local s') \<and>
         (0 \<le> lr_local s \<and> min_lr c \<le> lr_local s \<longrightarrow>
            lr_local s' \<le> lr_local s \<and> min_lr c \<le> lr_local s' \<and> 0 \<le> lr_local s') \<and>
         (lr_var (session s) = lr_local s \<longrightarrow> lr_var (session s') = lr_local s')"
proof -
  from loop_body_unfold [OF assms] obtain st' ml where
    run: "run_loss_update a (session s)
            (perts (samples_per_draw a) (x_dim (model a)) r (iters s))
          = Inr (loss (model a) (session s)
                   (perts (samples_per_draw a) (x_dim (model a)) r (iters s)), st')"
    and s': "s' = tune_lr c a ml
                (s\<lparr>session := st', queries := queries s + int (samples_per_draw a),
                   iters := Suc (iters s)\<rparr>)"
    by blast
  from run_loss_update_session [OF run] have st': "st' = (session s)\<lparr>x_adv_var := x_adv_var st'\<rparr>"
    by simp
  have "lr_var st' = lr_var (session s)"
    by (subst st') simp
  then show ?thesis
    unfolding s' tune_lr_cases halve_lr_def Let_def by auto
qed

lemma attack_loop_lr:
  "attack_loop c a r y y_target s = Inr s' \<Longrightarrow>
   0 \<le> lr_local s \<Longrightarrow> min_lr c \<le> lr_local s \<Longrightarrow> lr_var (session s) = lr_local s \<Longrightarrow>
   lr_local s' \<le> lr_local s \<and> min_lr c \<le> lr_local s' \<and> 0 \<le> lr_local s' \<and>
   lr_var (session s') = lr_local s'"
proof (induction c a r y y_target s rule: attack_loop.induct)
  case (1 c a r y y_target s)
  note run = "1.prems"(1) and inv = "1.prems"(2-4)
  show ?case
  proof (cases "queries s < max_queries c")
    case False
    with run inv show ?thesis
      by (simp add: attack_loop_exhausted)
  next
    case True
    with run obtain s1 where body: "loop_body c a r s = Inr s1"
      by (auto simp: attack_loop.simps [of c a r y y_target s] split: sum.splits)
    let ?s2 = "s1\<lparr>checks := Suc (checks s1)\<rparr>"
    have inv2: "0 \<le> lr_local ?s2" "min_lr c \<le> lr_local ?s2"
      "lr_var (session ?s2) = lr_local ?s2" and le: "lr_local ?s2 \<le> lr_local s"
      using loop_body_lr [OF body] inv by simp_all
    show ?thesis
    proof (cases "is_adversarial a (session ?s2) y y_target")
      case True
      with \<open>queries s < max_queries c\<close> body run have "s' = ?s2"
        by (simp add: attack_loop.simps [of c a r y y_target s])
      with inv2 le show ?thesis by simp
    next
      case False
      with \<open>queries s < max_queries c\<close> body run
      have "attack_loop c a r y y_target ?s2 = Inr s'"
        by (simp add: attack_loop.simps [of c a r y y_target s])
      from "1.IH" [OF \<open>queries s < max_queries c\<close> body refl False this inv2] le
      show ?thesis by simp
    qed
  qed
qed

text \<open>
  C6, as amended. After an iteration the learning rate is either unchanged or exactly
  \<open>max (lr / 2) min_lr\<close>; when it has changed it is at least \<^verbatim>\<open>min_lr\<close>; and provided the
  learning rate before the iteration is non-negative and at least \<^verbatim>\<open>min_lr\<close>, it has not
  increased and is still non-negative and at least \<^verbatim>\<open>min_lr\<close>. The session's
  \<^verbatim>\<open>lr_var\<close> follows the local learning rate. So in a run configured with
  \<open>0 \<le> lr\<close> and \<open>min_lr \<le> lr\<close> the learning rate at the return lies between \<^verbatim>\<open>min_lr\<close>
  and the configured \<^verbatim>\<open>lr\<close>.
\<close>

theorem lr_schedule:
  "(loop_body c a r s = Inr s' \<longrightarrow>
      (lr_local s' = lr_local s \<or> lr_local s' = max (lr_local s / 2) (min_lr c)) \<and>
      (lr_local s' \<noteq> lr_local s \<longrightarrow> min_lr c \<le> lr_local s') \<and>
      (0 \<le> lr_local s \<and> min_lr c \<le> lr_local s \<longrightarrow>
         lr_local s' \<le> lr_local s \<and> min_lr c \<le> lr_local s' \<and> 0 \<le> lr_local s') \<and>
      (lr_var (session s) = lr_local s \<longrightarrow> lr_var (session s') = lr_local s')) \<and>
   (attack c a r init_vars x y y_target = Inr out \<and> 0 \<le> lr c \<and> min_lr c \<le> lr c \<longrightarrow>
      min_lr c \<le> lr_local (final out) \<and> lr_local (final out) \<le> lr c \<and>
      lr_var (session (final out)) = lr_local (final out))"
proof (rule conjI)
  show "loop_body c a r s = Inr s' \<longrightarrow>
      (lr_local s' = lr_local s \<or> lr_local s' = max (lr_local s / 2) (min_lr c)) \<and>
      (lr_local s' \<noteq> lr_local s \<longrightarrow> min_lr c \<le> lr_local s') \<and>
      (0 \<le> lr_local s \<and> min_lr c \<le> lr_local s \<longrightarrow>
         lr_local s' \<le> lr_local s \<and> min_lr c \<le> lr_local s' \<and> 0 \<le> lr_local s') \<and>
      (lr_var (session s) = lr_local s \<longrightarrow> lr_var (session s') = lr_local s')"
    by (rule impI) (rule loop_body_lr)
next
  show "attack c a r init_vars x y y_target = Inr out \<and> 0 \<le> lr c \<and> min_lr c \<le> lr c \<longrightarrow>
      min_lr c \<le> lr_local (final out) \<and> lr_local (final out) \<le> lr c \<and>
      lr_var (session (final out)) = lr_local (final out)"
  proof (rule impI)
    assume run: "attack c a r init_vars x y y_target = Inr out \<and> 0 \<le> lr c \<and> min_lr c \<le> lr c"
    let ?s = "entry c a init_vars x y y_target"
    have start: "lr_local ?s = lr c" "lr_var (session ?s) = lr c"
      by (simp_all add: entry_def run_setup_def)
    show "min_lr c \<le> lr_local (final out) \<and> lr_local (final out) \<le> lr c \<and>
        lr_var (session (final out)) = lr_local (final out)"
    proof (cases "is_adversarial a (session ?s) y y_target")
      case True
      with run have "final out = ?s"
        by (auto simp: attack_def Let_def split: if_splits)
      with run start show ?thesis by simp
    next
      case False
      with run obtain s1 where loop: "attack_loop c a r y y_target ?s = Inr s1"
        and out: "final out = s1"
        by (auto simp: attack_def Let_def split: if_splits sum.splits)
      from attack_loop_lr [OF loop] run start out show ?thesis by simp
    qed
  qed
qed

text \<open>
  The claim as stated fails: \<^verbatim>\<open>config\<close> accepts \<^verbatim>\<open>min_lr = 4\<close> with \<^verbatim>\<open>lr = 1\<close>, and the
  iteration that detects the plateau then raises the learning rate from 1 to 4.
\<close>

theorem lr_schedule_counterexample:
  "loop_body (toy_config 4 4) (toy_nes ''ut'' ''l_inf'') toy_rng (toy_state 1 1 [0] (Suc 0))
     = Inr ((toy_state 0 4 [] (Suc (Suc 0)))\<lparr>checks := Suc (Suc 0)\<rparr>) \<and>
   lr_local (toy_state 1 1 [0] (Suc 0)) = 1 \<and>
   lr_local ((toy_state 0 4 [] (Suc (Suc 0)))\<lparr>checks := Suc (Suc 0)\<rparr>) = 4 \<and>
   attack (toy_config 4 4) (toy_nes ''ut'' ''l_inf'') toy_rng (toy_session 0 10 0) [0] 0 1
     = Inr \<lparr>returned = [0], details_queries = 4, final = toy_state 0 4 [] (Suc (Suc 0))\<rparr> \<and>
   lr (toy_config 4 4) < lr_local (toy_state 0 4 [] (Suc (Suc 0)))"
  using toy_step2 [of 4 4] toy_run2 [of 4]
  by (simp add: toy_defs)

text \<open>The amended claim at the second iteration of the concrete run, \<^verbatim>\<open>min_lr = 1/4\<close>.\<close>

theorem lr_schedule_witness:
  "lr_local (toy_state 0 (1 / 2) [] (Suc (Suc 0)))
     = max (lr_local (toy_state 1 1 [0] (Suc 0)) / 2) (min_lr (toy_config 4 (1 / 4))) \<and>
   lr_local (toy_state 0 (1 / 2) [] (Suc (Suc 0))) \<le> lr_local (toy_state 1 1 [0] (Suc 0)) \<and>
   min_lr (toy_config 4 (1 / 4)) \<le> lr_local (toy_state 0 (1 / 2) [] (Suc (Suc 0))) \<and>
   lr_local (toy_state 0 (1 / 2) [] (Suc (Suc 0))) \<le> lr (toy_config 4 (1 / 4))"
  using lr_schedule [where c = "toy_config 4 (1 / 4)" and a = "toy_nes ''ut'' ''l_inf''"
      and r = toy_rng and s = "toy_state 1 1 [0] (Suc 0)"
      and s' = "(toy_state 0 (1 / 2) [] (Suc (Suc 0)))\<lparr>checks := Suc (Suc 0)\<rparr>"
      and init_vars = "toy_session 0 10 0" and x = "[0]" and y = 0 and y_target = 1
      and out = "\<lparr>returned = [0], details_queries = 4,
                  final = toy_state 0 (1 / 2) [] (Suc (Suc 0))\<rparr>"]
    toy_step2 [of 4 "1 / 4"] toy_run2 [of "1 / 4"]
  by (simp add: toy_defs)

section \<open>C1: feasibility of the candidate after an update\<close>







lemma clip_by_norm_error:
  "clip_by_norm xs c = Inl e \<Longrightarrow> e = NonFinite \<and> c \<le> 0 \<and> tf_norm xs = 0"
  using tf_norm_nonneg [of xs]
  by (auto simp: clip_by_norm_def Let_def max_def split: if_splits)


















section \<open>C2: the margin loss\<close>

lemma zip_upt_maps:
  "map2 h (map f [0..<n]) (map k [0..<n]) = map (\<lambda>j. h (f j) (k j)) [0..<n]"
  by (simp add: zip_map_map zip_same_conv_map o_def)

lemma logit_this_one_hot:
  assumes "0 \<le> l" and "nat l < n"
  shows "logit_this (one_hot l n) (map sc [0..<n]) = sc (nat l)"
proof -
  have "logit_this (one_hot l n) (map sc [0..<n])
      = (\<Sum>j = 0..<n. (if int j = l then 1 else 0) * sc j)"
    by (simp add: logit_this_def one_hot_def zip_upt_maps interv_sum_list_conv_sum_set_nat)
  also have "\<dots> = (\<Sum>j = 0..<n. if j = nat l then sc j else 0)"
    using assms(1) by (intro sum.cong) auto
  also have "\<dots> = sc (nat l)"
    using assms(2) by simp
  finally show ?thesis .
qed

lemma reduce_max_Max: "xs \<noteq> [] \<Longrightarrow> reduce_max xs = Max (set xs)"
  by (cases xs) (simp_all add: Max.set_eq_fold [symmetric])

lemma logit_that_one_hot:
  assumes "0 \<le> l" and "nat l < n"
    and "\<exists>j < n. j \<noteq> nat l \<and> sc (nat l) - 99999 \<le> sc j"
  shows "logit_that (one_hot l n) (map sc [0..<n]) = Max {sc j | j. j < n \<and> j \<noteq> nat l}"
proof -
  let ?others = "{sc j | j. j < n \<and> j \<noteq> nat l}"
  let ?masked = "\<lambda>j. sc j - 99999 * (if int j = l then 1 else 0)"
  have fin: "finite ?others" by simp
  from assms(3) obtain j where j: "j < n" "j \<noteq> nat l" "sc (nat l) - 99999 \<le> sc j"
    by blast
  then have ne: "?others \<noteq> {}" by blast
  have eq: "\<And>i. (int i = l) = (i = nat l)"
    using assms(1) by auto
  have "n \<noteq> 0" using assms(2) by simp
  then have "logit_that (one_hot l n) (map sc [0..<n]) = Max (?masked ` {0..<n})"
    by (simp add: logit_that_def one_hot_def zip_upt_maps reduce_max_Max)
  also have "?masked ` {0..<n} = insert (sc (nat l) - 99999) ?others"
  proof (intro equalityI subsetI)
    fix v
    assume "v \<in> ?masked ` {0..<n}"
    then obtain i where "i < n" "v = ?masked i" by auto
    then show "v \<in> insert (sc (nat l) - 99999) ?others"
      using assms(1) by (cases "i = nat l") (auto simp: eq)
  next
    fix v
    assume "v \<in> insert (sc (nat l) - 99999) ?others"
    then consider "v = sc (nat l) - 99999" | i where "i < n" "i \<noteq> nat l" "v = sc i"
      by auto
    then show "v \<in> ?masked ` {0..<n}"
    proof cases
      case 1
      then show ?thesis
        using assms(1,2) by (intro image_eqI [of _ _ "nat l"]) (auto simp: eq)
    next
      case 2
      then show ?thesis
        using assms(1) by (intro image_eqI [of _ _ i]) (auto simp: eq)
    qed
  qed
  also have "Max (insert (sc (nat l) - 99999) ?others) = max (sc (nat l) - 99999) (Max ?others)"
    using fin ne by (rule Max_insert)
  also have "\<dots> = Max ?others"
  proof -
    have "sc j \<le> Max ?others"
      using fin j(1,2) by (intro Max_ge) auto
    with j(3) show ?thesis by (simp add: max_def)
  qed
  finally show ?thesis .
qed

lemma nth_loss:
  assumes "s < length (ys_var st)" and "s < length ps"
  shows "loss m st ps ! s =
           logit_that (one_hot (ys_var st ! s) (n_class m))
             (logits m (tf_add (x_adv_var st) (tf_scale (sigma_var st) (ps ! s)))) -
           logit_this (one_hot (ys_var st ! s) (n_class m))
             (logits m (tf_add (x_adv_var st) (tf_scale (sigma_var st) (ps ! s))))"
  using assms by (simp add: loss_def logits_and_labels_def points_def)

text \<open>
  C2, as amended. The label the loss uses is the one \<^verbatim>\<open>attack\<close> feeds: the true label \<open>y\<close>
  for the goal \<^verbatim>\<open>'ut'\<close>, the target label \<open>y_target\<close> for every other goal, \<^verbatim>\<open>'tm'\<close>
  included. With the scores taken at \<open>current + sigma * perturbation\<close>, the loss of a
  sample is the largest score of the other classes minus the score of that label,
  provided the label is a class and some other class scores no less than the label's
  score minus 99999 (the mask constant of line 52).
\<close>

theorem margin_loss:
  assumes "NES_init m0 g dm spd = Inr a"
    and "ys_var st = ys_var (run_setup c a st0 x y y_target)"
    and "x_adv_var st = current"
    and "ps = perts (samples_per_draw a) (x_dim (model a)) r t"
    and "s < samples_per_draw a"
    and "lab = (if goal a = ''ut'' then y else y_target)"
    and "0 \<le> lab" and "nat lab < n_class (model a)"
    and "sc = score (model a) (tf_add current (tf_scale (sigma_var st) (ps ! s)))"
    and "\<exists>j < n_class (model a). j \<noteq> nat lab \<and> sc (nat lab) - 99999 \<le> sc j"
  shows "loss (model a) st ps ! s
           = Max {sc j | j. j < n_class (model a) \<and> j \<noteq> nat lab} - sc (nat lab)"
proof -
  have ys: "ys_var st = replicate (samples_per_draw a) lab"
    by (simp add: assms(2,6) run_setup_def)
  have "length ps = 2 * (samples_per_draw a div 2)"
    by (simp add: assms(4) perts_def Let_def length_random_normal)
  also have "\<dots> = samples_per_draw a"
    using NES_init_fields [OF assms(1)] by simp
  finally have len: "s < length ps"
    using assms(5) by simp
  have lg: "logits (model a) (tf_add (x_adv_var st) (tf_scale (sigma_var st) (ps ! s)))
      = map sc [0..<n_class (model a)]"
    by (simp add: logits_def assms(3,9))
  have "loss (model a) st ps ! s =
      logit_that (one_hot lab (n_class (model a))) (map sc [0..<n_class (model a)]) -
      logit_this (one_hot lab (n_class (model a))) (map sc [0..<n_class (model a)])"
    using nth_loss [of s st ps "model a"] len assms(5) by (simp add: ys lg)
  then show ?thesis
    by (simp only: logit_that_one_hot [OF assms(7,8,10)] logit_this_one_hot [OF assms(7,8)])
qed

text \<open>
  The claim as stated fails for the goal \<^verbatim>\<open>'tm'\<close>: with the true label 0 and the target
  label 1, the loss of the first sample of the concrete instance, scored at \<open>[1]\<close>, is the
  score of class 0 minus that of class 1, that is -1: the margin of the target label.
  The margin of the true label, the score of the only other class 1 minus that of class
  0, is 1.
\<close>

theorem margin_loss_counterexample:
  "goal (toy_nes ''tm'' ''l_inf'') = ''tm'' \<and>
   tf_add [0] (tf_scale 1 [1]) = [1] \<and>
   loss (model (toy_nes ''tm'' ''l_inf''))
     (run_setup (toy_config 4 1) (toy_nes ''tm'' ''l_inf'') (toy_session 0 10 0) [0] 0 1)
     (perts (samples_per_draw (toy_nes ''tm'' ''l_inf'')) (x_dim toy_model) toy_rng 0) ! 0
     = score toy_model [1] 0 - score toy_model [1] 1 \<and>
   score toy_model [1] 0 - score toy_model [1] 1 = - 1 \<and>
   score toy_model [1] 1 - score toy_model [1] 0 = 1"
  by (simp add: toy_proj toy_perts toy_loss_tm)
     (simp add: toy_defs tf_add_def tf_scale_def)

text \<open>The amended claim for the goal \<^verbatim>\<open>'ut'\<close> and the first sample of the concrete instance.\<close>

theorem margin_loss_witness:
  "loss (model (toy_nes ''ut'' ''l_inf''))
     (run_setup (toy_config 4 1) (toy_nes ''ut'' ''l_inf'') (toy_session 0 10 0) [0] 0 1)
     (perts (samples_per_draw (toy_nes ''ut'' ''l_inf'')) (x_dim (model (toy_nes ''ut'' ''l_inf'')))
        toy_rng 0) ! 0
   = Max {score toy_model [1] j | j. j < n_class toy_model \<and> j \<noteq> nat 0}
       - score toy_model [1] (nat 0)"
proof -
  let ?a = "toy_nes ''ut'' ''l_inf''"
  let ?st = "run_setup (toy_config 4 1) ?a (toy_session 0 10 0) [0] 0 1"
  let ?ps = "perts (samples_per_draw ?a) (x_dim (model ?a)) toy_rng 0"
  have pt: "tf_add [0] (tf_scale (sigma_var ?st) (?ps ! 0)) = [1]"
    by (simp add: toy_proj toy_perts) (simp add: run_setup_def toy_defs tf_add_def tf_scale_def)
  have h: "x_adv_var ?st = [0]" "(0::nat) < samples_per_draw ?a"
    "(0::int) = (if goal ?a = ''ut'' then 0 else 1)" "(0::int) \<le> 0" "nat 0 < n_class (model ?a)"
    by (simp_all add: run_setup_def toy_defs)
  have other: "\<exists>j < n_class (model ?a). j \<noteq> nat 0 \<and>
      score (model ?a) (tf_add [0] (tf_scale (sigma_var ?st) (?ps ! 0))) (nat 0) - 99999
        \<le> score (model ?a) (tf_add [0] (tf_scale (sigma_var ?st) (?ps ! 0))) j"
    unfolding pt by (rule exI [of _ 1]) (simp add: toy_defs)
  from margin_loss [OF toy_init(1) refl h(1) refl h(2) h(3) h(4) h(5) refl other]
  show ?thesis
    by (simp only: pt) (simp add: toy_proj)
qed

section \<open>C10: the update on a zero gradient\<close>






end
